theory Spec2Isabelle
  imports Main
begin

section \<open>Values, exceptions and the observable world\<close>

text \<open>
  The script of \<^verbatim>\<open>task-a.py\<close> talks to a cloud provider through an SDK. The provider's
  answers are inputs of the model: every SDK call is a field of an environment record
  that yields either a value or the exception the call raises. What the script does
  to the outside is recorded in a \<open>world\<close>: the calls made on the logger, the
  state-changing requests it issued (bucket creation, upload, file removal) in order,
  and the local files.

  Python strings are \<open>string\<close> (characters below 256); a value that may be \<open>None\<close>
  is an \<open>option\<close>.
\<close>

datatype level = INFO | WARNING | ERROR

text \<open>
  A \<open>botocore\<close> \<open>ClientError\<close>: \<open>Code\<close> is \<open>ce.response['Error']['Code']\<close>,
  \<open>Message\<close> is \<open>str(ce)\<close>.
\<close>

record client_error =
  Code :: string
  Message :: string

datatype exn =
    ClientError client_error
  | ValueError
  | TypeError
  | KeyError
  | OtherError string

datatype request =
    CreateBucket string
  | UploadFile string string string
  | Remove string

record world =
  log :: "(level \<times> string) list"
  trace :: "request list"
  files :: "string \<rightharpoonup> string"

type_synonym 'a result = "(exn + 'a) \<times> world"

definition logger :: "level \<Rightarrow> string \<Rightarrow> world \<Rightarrow> world" where
  "logger lvl m w = w\<lparr>log := log w @ [(lvl, m)]\<rparr>"

definition issue :: "request \<Rightarrow> world \<Rightarrow> world" where
  "issue rq w = w\<lparr>trace := trace w @ [rq]\<rparr>"

text \<open>Sequencing: an exception of the first step skips the rest.\<close>

definition and_then :: "'a result \<Rightarrow> ('a \<Rightarrow> world \<Rightarrow> 'b result) \<Rightarrow> 'b result" where
  "and_then r f = (case r of (Inl e, w) \<Rightarrow> (Inl e, w) | (Inr x, w) \<Rightarrow> f x w)"

text \<open>An SDK call that returns nothing: \<open>None\<close> is success, \<open>Some e\<close> raises \<open>e\<close>.\<close>

definition raising :: "exn option \<Rightarrow> world \<Rightarrow> unit result" where
  "raising r w = (case r of None \<Rightarrow> (Inr (), w) | Some e \<Rightarrow> (Inl e, w))"

text \<open>
  \<^verbatim>\<open>try: ... except ClientError as ce: logger.<lvl>(str(ce))\<close> around a block that
  returns nothing. Every other exception passes through.
\<close>

definition except_ClientError :: "level \<Rightarrow> unit result \<Rightarrow> unit result" where
  "except_ClientError lvl r =
     (case r of
        (Inl (ClientError ce), w) \<Rightarrow> (Inr (), logger lvl (Message ce) w)
      | _ \<Rightarrow> r)"

section \<open>Python's \<open>int\<close> on a string\<close>

text \<open>
  \<open>int(s)\<close> in base 10: surrounding whitespace is dropped, then an optional sign, then
  decimal digits in which single underscores may stand between two digits. Anything
  else raises \<open>ValueError\<close> (here \<open>None\<close>). The interpreter's limit on the number of
  digits is not modelled.
\<close>

definition is_space :: "char \<Rightarrow> bool" where
  "is_space c = ((of_char c :: nat) \<in> {9, 10, 11, 12, 13, 32, 133, 160})"

definition is_digit :: "char \<Rightarrow> bool" where
  "is_digit c = (48 \<le> (of_char c :: nat) \<and> (of_char c :: nat) \<le> 57)"

definition digit_val :: "char \<Rightarrow> nat" where
  "digit_val c = of_char c - 48"

definition strip :: "string \<Rightarrow> string" where
  "strip s = rev (dropWhile is_space (rev (dropWhile is_space s)))"

fun py_digits :: "string \<Rightarrow> nat \<Rightarrow> nat option" where
  "py_digits [] acc = Some acc"
| "py_digits [c] acc = (if is_digit c then Some (10 * acc + digit_val c) else None)"
| "py_digits (c # d # ds) acc =
     (if is_digit c then py_digits (d # ds) (10 * acc + digit_val c)
      else if c = CHR ''_'' \<and> is_digit d then py_digits ds (10 * acc + digit_val d)
      else None)"

definition py_nat :: "string \<Rightarrow> nat option" where
  "py_nat s =
     (case s of
        [] \<Rightarrow> None
      | c # cs \<Rightarrow> if is_digit c then py_digits cs (digit_val c) else None)"

definition py_int :: "string \<Rightarrow> int option" where
  "py_int s =
     (case strip s of
        [] \<Rightarrow> None
      | c # cs \<Rightarrow>
          if c = CHR ''-'' then map_option (\<lambda>n. - int n) (py_nat cs)
          else if c = CHR ''+'' then map_option int (py_nat cs)
          else map_option int (py_nat (c # cs)))"

section \<open>Bucket namer\<close>

text \<open>\<^verbatim>\<open>return f'ec2-{account_id}-{region}-list'\<close>: the pieces of the f-string, joined.\<close>

definition get_bucket_name :: "string \<Rightarrow> string \<Rightarrow> string" where
  "get_bucket_name account_id region = concat [''ec2-'', account_id, ''-'', region, ''-list'']"

section \<open>Bucket resolver\<close>

text \<open>The S3 resource: what \<open>head_bucket\<close> and \<open>create_bucket\<close> answer for a name.\<close>

record s3_resource =
  head_bucket :: "string \<Rightarrow> exn option"
  create_bucket :: "string \<Rightarrow> exn option"

text \<open>
  \<open>is_bucket_exists\<close>: the two flags start \<open>False\<close>; a probe that returns sets both; a
  \<open>ClientError\<close> is caught, its code converted with \<open>int\<close>, and only 403 sets \<open>exists\<close>.
  The result is \<open>exists and allow_access\<close>.
\<close>

definition is_bucket_exists :: "s3_resource \<Rightarrow> string \<Rightarrow> world \<Rightarrow> bool result" where
  "is_bucket_exists s3 bucket_name w =
     (let exists0 = False; allow_access0 = False in
      case head_bucket s3 bucket_name of
        None \<Rightarrow>
          (let exists1 = True; allow_access1 = True
           in (Inr (exists1 \<and> allow_access1), w))
      | Some (ClientError ce) \<Rightarrow>
          (case py_int (Code ce) of
             None \<Rightarrow> (Inl ValueError, w)
           | Some error_code \<Rightarrow>
               if error_code = 403 then
                 (let exists1 = True
                  in (Inr (exists1 \<and> allow_access0),
                      logger WARNING
                        (concat [''Bucket '', bucket_name, '' is private. Forbidden access.'']) w))
               else if error_code = 404 then
                 (Inr (exists0 \<and> allow_access0),
                  logger INFO
                    (concat [''Bucket '', bucket_name, '' does not exist. Will be created.'']) w)
               else (Inr (exists0 \<and> allow_access0), w))
      | Some e \<Rightarrow> (Inl e, w))"

text \<open>
  \<open>create_not_exists_bucket\<close>: the probe and the creation are both inside the
  \<open>try\<close>; the creation request is issued when the probe returned \<open>False\<close>.
\<close>

definition create_not_exists_bucket :: "s3_resource \<Rightarrow> string \<Rightarrow> world \<Rightarrow> unit result" where
  "create_not_exists_bucket s3 bucket_name w =
     except_ClientError WARNING
       (and_then (is_bucket_exists s3 bucket_name w) (\<lambda>found w1.
          if \<not> found then
            raising (create_bucket s3 bucket_name) (issue (CreateBucket bucket_name) w1)
          else (Inr (), w1)))"

text \<open>The number of bucket-creation requests issued so far.\<close>

definition creation_calls :: "world \<Rightarrow> nat" where
  "creation_calls w = length (filter (\<lambda>rq. case rq of CreateBucket _ \<Rightarrow> True | _ \<Rightarrow> False) (trace w))"

section \<open>Instance lister\<close>

text \<open>
  An instance as the SDK hands it over: \<open>tags\<close> is \<open>None\<close> when the instance has no
  tag collection. Of an image only the two attributes the script reads.
\<close>

record tag =
  Key :: string
  Value :: string

record ec2_instance =
  instance_id :: string
  tags :: "tag list option"
  image_id :: string

record ec2_image =
  description :: "string option"
  name :: "string option"

text \<open>
  The EC2 resource. \<open>instances_filter\<close> is the answer to the filter on the running
  state: the instances the lazy collection yields, and the exception its iteration ends
  with, if any. \<open>Image\<close> is the lookup that reading \<open>image.description\<close> triggers.
\<close>

record ec2_resource =
  instances_filter :: "ec2_instance list \<times> exn option"
  Image :: "string \<Rightarrow> exn + ec2_image"

datatype RunInfo = Name | Ami

type_synonym instance_info = "RunInfo \<rightharpoonup> string option"

text \<open>The \<open>for tag in instance.tags\<close> loop: the first tag with key \<open>Name\<close> returns.\<close>

fun get_ec2_name_loop :: "tag list \<Rightarrow> string option" where
  "get_ec2_name_loop [] = None"
| "get_ec2_name_loop (t # ts) = (if Key t = ''Name'' then Some (Value t) else get_ec2_name_loop ts)"

text \<open>Iterating \<open>None\<close> raises \<open>TypeError\<close>.\<close>

definition get_ec2_name :: "ec2_instance \<Rightarrow> exn + string option" where
  "get_ec2_name inst =
     (case tags inst of
        None \<Rightarrow> Inl TypeError
      | Some ts \<Rightarrow> Inr (get_ec2_name_loop ts))"

text \<open>The body of the loop of \<open>get_ec2_list\<close>, for one instance.\<close>

definition instance_record :: "ec2_resource \<Rightarrow> ec2_instance \<Rightarrow> exn + instance_info" where
  "instance_record ec2 inst =
     (case get_ec2_name inst of
        Inl e \<Rightarrow> Inl e
      | Inr instance_name0 \<Rightarrow>
          (let instance_name =
                 (case instance_name0 of None \<Rightarrow> Some (instance_id inst) | Some n \<Rightarrow> Some n)
           in case Image ec2 (image_id inst) of
                Inl e \<Rightarrow> Inl e
              | Inr img \<Rightarrow>
                  (let instance_ami =
                         (case description img of None \<Rightarrow> name img | Some d \<Rightarrow> Some d)
                   in Inr (Map.empty(Name \<mapsto> instance_name, Ami \<mapsto> instance_ami)))))"

text \<open>
  The loop with its accumulator \<open>running_istances\<close>. The list is appended to in place,
  so it keeps what was collected when an exception ends the loop.
\<close>

fun get_ec2_list_loop ::
  "ec2_resource \<Rightarrow> ec2_instance list \<Rightarrow> exn option \<Rightarrow> instance_info list \<Rightarrow> exn option \<times> instance_info list"
where
  "get_ec2_list_loop ec2 [] stop running = (stop, running)"
| "get_ec2_list_loop ec2 (inst # rest) stop running =
     (case instance_record ec2 inst of
        Inl e \<Rightarrow> (Some e, running)
      | Inr instance_info \<Rightarrow> get_ec2_list_loop ec2 rest stop (running @ [instance_info]))"

definition get_ec2_list :: "ec2_resource \<Rightarrow> world \<Rightarrow> instance_info list result" where
  "get_ec2_list ec2 w =
     (case get_ec2_list_loop ec2 (fst (instances_filter ec2)) (snd (instances_filter ec2)) [] of
        (None, running) \<Rightarrow> (Inr running, w)
      | (Some (ClientError ce), running) \<Rightarrow> (Inr running, logger WARNING (Message ce) w)
      | (Some e, running) \<Rightarrow> (Inl e, w))"

section \<open>Report writer\<close>

text \<open>
  \<open>csv.writer\<close> with \<open>delimiter=';'\<close>, \<open>quotechar='"'\<close>, \<open>QUOTE_ALL\<close> and the defaults
  otherwise: every field is quoted, a quote inside a field is doubled, \<open>None\<close> is
  written as the empty field, a row ends with CR LF.
\<close>

definition quotechar :: char where
  "quotechar = CHR 0x22"

definition lineterminator :: string where
  "lineterminator = [CHR 0x0D, CHR 0x0A]"

definition escape_quotes :: "string \<Rightarrow> string" where
  "escape_quotes s = concat (map (\<lambda>c. if c = quotechar then [quotechar, quotechar] else [c]) s)"

definition csv_field :: "string option \<Rightarrow> string" where
  "csv_field v =
     [quotechar] @ escape_quotes (case v of None \<Rightarrow> [] | Some s \<Rightarrow> s) @ [quotechar]"

fun join :: "string \<Rightarrow> string list \<Rightarrow> string" where
  "join sep [] = []"
| "join sep [x] = x"
| "join sep (x # y # ys) = x @ sep @ join sep (y # ys)"

definition writerow :: "string option list \<Rightarrow> string" where
  "writerow row = join '';'' (map csv_field row) @ lineterminator"

text \<open>
  The local side: \<open>open_w\<close> says whether opening a file for writing raises,
  \<open>os_remove\<close> whether removing it does. Writes to an open file succeed.
\<close>

record os_env =
  open_w :: "string \<Rightarrow> exn option"
  os_remove :: "string \<Rightarrow> exn option"

definition file_append :: "string \<Rightarrow> string \<Rightarrow> world \<Rightarrow> world" where
  "file_append file_name s w =
     w\<lparr>files := (files w)(file_name \<mapsto> (case files w file_name of None \<Rightarrow> s | Some old \<Rightarrow> old @ s))\<rparr>"

text \<open>The \<open>for r_instance in running_istances\<close> loop; a missing key raises \<open>KeyError\<close>.\<close>

fun write_rows :: "string \<Rightarrow> instance_info list \<Rightarrow> world \<Rightarrow> unit result" where
  "write_rows file_name [] w = (Inr (), w)"
| "write_rows file_name (r_instance # rest) w =
     (case r_instance Name of
        None \<Rightarrow> (Inl KeyError, w)
      | Some n \<Rightarrow>
          (case r_instance Ami of
             None \<Rightarrow> (Inl KeyError, w)
           | Some a \<Rightarrow> write_rows file_name rest (file_append file_name (writerow [n, a]) w)))"

text \<open>Opening with mode \<open>'w'\<close> creates the file or truncates it.\<close>

definition write_local_file ::
  "os_env \<Rightarrow> string \<Rightarrow> instance_info list \<Rightarrow> world \<Rightarrow> unit result"
where
  "write_local_file os file_name running_istances w =
     (case open_w os file_name of
        Some e \<Rightarrow> (Inl e, w)
      | None \<Rightarrow> write_rows file_name running_istances (w\<lparr>files := (files w)(file_name \<mapsto> [])\<rparr>))"

section \<open>The command\<close>

text \<open>
  The rest of the environment of one run: whether building a client or a resource
  raises, the answers of the identity lookup (by the number of the call), the resources,
  the answer to the upload, and \<open>str\<close> of the timestamp of the clock.
\<close>

record env =
  boto3_client :: "string \<Rightarrow> string option \<Rightarrow> exn option"
  boto3_resource :: "string \<Rightarrow> string option \<Rightarrow> exn option"
  get_caller_identity :: "nat \<Rightarrow> exn + (string \<rightharpoonup> string)"
  boto3_s3 :: s3_resource
  boto3_ec2 :: "string \<Rightarrow> ec2_resource"
  upload_file :: "string \<Rightarrow> string \<Rightarrow> string \<Rightarrow> exn option"
  timestamp :: string
  host :: os_env

definition generate_file_name :: "env \<Rightarrow> string" where
  "generate_file_name e =
     (let timestamp_f_name = map (\<lambda>c. if c = CHR ''.'' then CHR ''-'' else c) (timestamp e)
      in concat [''ec2-instances-'', timestamp_f_name, ''.csv''])"

definition returning :: "exn + 'a \<Rightarrow> world \<Rightarrow> 'a result" where
  "returning r w = (case r of Inl e \<Rightarrow> (Inl e, w) | Inr x \<Rightarrow> (Inr x, w))"

definition subscript :: "('k \<rightharpoonup> 'v) \<Rightarrow> 'k \<Rightarrow> exn + 'v" where
  "subscript d k = (case d k of None \<Rightarrow> Inl KeyError | Some v \<Rightarrow> Inr v)"

text \<open>\<open>if os.path.exists(csv_f_name): os.remove(csv_f_name)\<close>\<close>

definition remove_if_exists :: "os_env \<Rightarrow> string \<Rightarrow> world \<Rightarrow> unit result" where
  "remove_if_exists os file_name w =
     (if file_name \<in> dom (files w) then
        (case os_remove os file_name of
           Some e \<Rightarrow> (Inl e, w)
         | None \<Rightarrow> (Inr (), issue (Remove file_name) (w\<lparr>files := (files w)(file_name := None)\<rparr>)))
      else (Inr (), w))"

text \<open>The body of the \<open>try\<close> block of \<open>create_running_ec2_list\<close>, statement by statement.\<close>

definition create_running_ec2_list_try :: "env \<Rightarrow> string \<Rightarrow> world \<Rightarrow> unit result" where
  "create_running_ec2_list_try e region w =
      (and_then (raising (boto3_client e ''sts'' None) w) (\<lambda>_ w.
       and_then (returning (get_caller_identity e 0) w) (\<lambda>identity0 w.
       let account_id0 = identity0 ''Account'' in
       and_then (raising (boto3_resource e ''s3'' None) w) (\<lambda>_ w.
       and_then (raising (boto3_resource e ''ec2'' (Some region)) w) (\<lambda>_ w.
       and_then (raising (boto3_client e ''ecr'' (Some region)) w) (\<lambda>_ w.
       and_then (raising (boto3_client e ''sts'' None) w) (\<lambda>_ w.
       and_then (returning (get_caller_identity e 1) w) (\<lambda>identity1 w.
       and_then (returning (subscript identity1 ''Account'') w) (\<lambda>account_id w.
       let s3_bucket_name = get_bucket_name account_id region in
       and_then (create_not_exists_bucket (boto3_s3 e) s3_bucket_name w) (\<lambda>_ w.
       let csv_f_name = generate_file_name e in
       and_then (get_ec2_list (boto3_ec2 e region) w) (\<lambda>running_istances w.
       and_then (write_local_file (host e) csv_f_name running_istances w) (\<lambda>_ w.
       and_then (raising (boto3_client e ''s3'' None) w) (\<lambda>_ w.
       and_then (raising (upload_file e csv_f_name s3_bucket_name csv_f_name)
                   (issue (UploadFile csv_f_name s3_bucket_name csv_f_name) w)) (\<lambda>_ w.
       remove_if_exists (host e) csv_f_name w))))))))))))))"

text \<open>The command: the block above under \<open>except ClientError as ce: logger.error(ce)\<close>.\<close>

definition create_running_ec2_list :: "env \<Rightarrow> string \<Rightarrow> world \<Rightarrow> unit result" where
  "create_running_ec2_list e region w =
     except_ClientError ERROR (create_running_ec2_list_try e region w)"

text \<open>The requests issued between two states of the world.\<close>

definition issued_since :: "world \<Rightarrow> world \<Rightarrow> request list" where
  "issued_since w w' = drop (length (trace w)) (trace w')"

section \<open>Example inputs\<close>

text \<open>
  Concrete providers for the scenarios of the specification: account
  \<open>111122223333\<close> in \<open>us-east-1\<close>, two running instances, one of them tagged.
\<close>

definition world0 :: world where
  "world0 = \<lparr>log = [], trace = [], files = Map.empty\<rparr>"

definition provider_error :: "string \<Rightarrow> exn" where
  "provider_error c = ClientError \<lparr>Code = c, Message = concat [''An error occurred ('', c, '')'']\<rparr>"

definition example_s3 :: "exn option \<Rightarrow> exn option \<Rightarrow> s3_resource" where
  "example_s3 probe creation = \<lparr>head_bucket = (\<lambda>_. probe), create_bucket = (\<lambda>_. creation)\<rparr>"

definition example_bucket :: string where
  "example_bucket = ''ec2-111122223333-us-east-1-list''"

definition web_1 :: ec2_instance where
  "web_1 = \<lparr>instance_id = ''i-0web1'', tags = Some [\<lparr>Key = ''env'', Value = ''prod''\<rparr>,
       \<lparr>Key = ''Name'', Value = ''web-1''\<rparr>], image_id = ''ami-ubuntu''\<rparr>"

definition untagged :: ec2_instance where
  "untagged = \<lparr>instance_id = ''i-0abc123'', tags = Some [], image_id = ''ami-custom''\<rparr>"

definition tags_absent :: ec2_instance where
  "tags_absent = \<lparr>instance_id = ''i-0none'', tags = None, image_id = ''ami-ubuntu''\<rparr>"

definition empty_description :: ec2_instance where
  "empty_description = \<lparr>instance_id = ''i-0empty'', tags = Some [], image_id = ''ami-empty''\<rparr>"

definition image_gone :: ec2_instance where
  "image_gone = \<lparr>instance_id = ''i-0gone'', tags = Some [], image_id = ''ami-gone''\<rparr>"

definition example_Image :: "string \<Rightarrow> exn + ec2_image" where
  "example_Image i =
     (if i = ''ami-ubuntu'' then Inr \<lparr>description = Some ''Ubuntu 22.04'', name = Some ''ubuntu-jammy''\<rparr>
      else if i = ''ami-custom'' then Inr \<lparr>description = None, name = Some ''custom-ami''\<rparr>
      else if i = ''ami-empty'' then Inr \<lparr>description = Some [], name = Some ''custom-ami''\<rparr>
      else Inl (provider_error ''InvalidAMIID.NotFound''))"

definition example_ec2 :: "ec2_instance list \<Rightarrow> exn option \<Rightarrow> ec2_resource" where
  "example_ec2 listed stop = \<lparr>instances_filter = (listed, stop), Image = example_Image\<rparr>"

definition example_os :: os_env where
  "example_os = \<lparr>open_w = (\<lambda>_. None), os_remove = (\<lambda>_. None)\<rparr>"

definition example_env :: "exn option \<Rightarrow> env" where
  "example_env upload =
     \<lparr>boto3_client = (\<lambda>_ _. None),
      boto3_resource = (\<lambda>_ _. None),
      get_caller_identity = (\<lambda>_. Inr [''Account'' \<mapsto> ''111122223333'']),
      boto3_s3 = example_s3 (Some (provider_error ''404'')) None,
      boto3_ec2 = (\<lambda>_. example_ec2 [web_1, untagged] None),
      upload_file = (\<lambda>_ _ _. upload),
      timestamp = ''1700000000.123456'',
      host = example_os\<rparr>"

definition web_1_record :: instance_info where
  "web_1_record = [Name \<mapsto> Some ''web-1'', Ami \<mapsto> Some ''Ubuntu 22.04'']"

definition untagged_record :: instance_info where
  "untagged_record = [Name \<mapsto> Some ''i-0abc123'', Ami \<mapsto> Some ''custom-ami'']"

definition empty_description_record :: instance_info where
  "empty_description_record = [Name \<mapsto> Some ''i-0empty'', Ami \<mapsto> Some []]"


definition example_csv :: string where
  "example_csv = ''ec2-instances-1700000000-123456.csv''"

definition example_report :: string where
  "example_report =
     [CHR 0x22] @ ''web-1'' @ [CHR 0x22] @ '';'' @ [CHR 0x22] @ ''Ubuntu 22.04'' @ [CHR 0x22]
       @ [CHR 0x0D, CHR 0x0A]
     @ [CHR 0x22] @ ''i-0abc123'' @ [CHR 0x22] @ '';'' @ [CHR 0x22] @ ''custom-ami'' @ [CHR 0x22]
       @ [CHR 0x0D, CHR 0x0A]"

definition upload_denied :: world where
  "upload_denied =
     \<lparr>log = [(INFO, ''Bucket ec2-111122223333-us-east-1-list does not exist. Will be created.''),
             (ERROR, ''An error occurred (AccessDenied)'')],
      trace = [CreateBucket example_bucket, UploadFile example_csv example_bucket example_csv],
      files = [example_csv \<mapsto> example_report]\<rparr>"

section \<open>Auxiliary facts\<close>

lemma py_int_codes:
  "py_int ''403'' = Some 403" "py_int ''404'' = Some 404" "py_int ''500'' = Some 500"
  by (simp_all add: py_int_def strip_def is_space_def py_nat_def is_digit_def digit_val_def)

lemma and_thenE:
  assumes "and_then r f = (res, w')"
  obtains e where "r = (Inl e, w')" "res = Inl e"
  | x w1 where "r = (Inr x, w1)" "f x w1 = (res, w')"
  using assms by (auto simp: and_then_def split: prod.splits sum.splits)

lemma raising_eq:
  "raising x w = (r, w') \<longleftrightarrow> w' = w \<and> r = (case x of None \<Rightarrow> Inr () | Some e \<Rightarrow> Inl e)"
  by (auto simp: raising_def split: option.splits)

lemma returning_eq: "returning x w = (r, w') \<longleftrightarrow> w' = w \<and> r = x"
  by (auto simp: returning_def split: sum.splits)

subsection \<open>What each step leaves untouched\<close>

lemma create_not_exists_bucket_frame:
  "create_not_exists_bucket s3 b w = (r, w') \<Longrightarrow>
     files w' = files w \<and> (trace w' = trace w \<or> trace w' = trace w @ [CreateBucket b])"
  by (auto simp: create_not_exists_bucket_def is_bucket_exists_def and_then_def raising_def
      except_ClientError_def issue_def logger_def Let_def
      split: option.splits exn.splits if_splits)

lemma get_ec2_list_frame:
  "get_ec2_list ec2 w = (r, w') \<Longrightarrow> files w' = files w \<and> trace w' = trace w"
  by (auto simp: get_ec2_list_def logger_def split: prod.splits option.splits exn.splits)

lemma write_rows_frame:
  "write_rows f rs w = (r, w') \<Longrightarrow>
     trace w' = trace w \<and> (f \<in> dom (files w) \<longrightarrow> f \<in> dom (files w'))"
proof (induction rs arbitrary: w)
  case Nil
  then show ?case by simp
next
  case (Cons x rs)
  show ?case
  proof (cases "x Name")
    case None
    with Cons.prems show ?thesis by simp
  next
    case (Some n)
    show ?thesis
    proof (cases "x Ami")
      case None
      with Some Cons.prems show ?thesis by simp
    next
      case (Some a)
      with \<open>x Name = Some n\<close> Cons.prems
      have "write_rows f rs (file_append f (writerow [n, a]) w) = (r, w')" by simp
      from Cons.IH[OF this] show ?thesis by (auto simp: file_append_def)
    qed
  qed
qed

lemma write_local_file_frame:
  "write_local_file os f rs w = (r, w') \<Longrightarrow>
     trace w' = trace w \<and> (r = Inr () \<longrightarrow> f \<in> dom (files w'))"
  by (auto simp: write_local_file_def split: option.splits dest!: write_rows_frame)

subsection \<open>The loops\<close>

lemma get_ec2_name_loop_find:
  "get_ec2_name_loop ts = map_option Value (find (\<lambda>t. Key t = ''Name'') ts)"
  by (induction ts) simp_all

lemma loop_collects:
  "get_ec2_list_loop ec2 xs stop acc = (e, out) \<Longrightarrow>
     \<exists>new. out = acc @ new \<and> length new \<le> length xs \<and>
           (\<forall>k<length new. instance_record ec2 (xs ! k) = Inr (new ! k))"
proof (induction xs arbitrary: acc)
  case Nil
  then show ?case by simp
next
  case (Cons x xs)
  show ?case
  proof (cases "instance_record ec2 x")
    case (Inl err)
    with Cons.prems show ?thesis by simp
  next
    case (Inr info)
    with Cons.prems have "get_ec2_list_loop ec2 xs stop (acc @ [info]) = (e, out)" by simp
    from Cons.IH[OF this] obtain new where
      new: "out = (acc @ [info]) @ new" "length new \<le> length xs"
           "\<forall>k<length new. instance_record ec2 (xs ! k) = Inr (new ! k)"
      by blast
    have "\<forall>k<length (info # new). instance_record ec2 ((x # xs) ! k) = Inr ((info # new) ! k)"
      using new(3) Inr by (simp add: nth_Cons split: nat.split)
    with new(1,2) show ?thesis
      by (intro exI[of _ "info # new"]) simp
  qed
qed

lemma listed_record:
  assumes "get_ec2_list ec2 w = (Inr infos, w')" and "k < length infos"
  shows "k < length (fst (instances_filter ec2)) \<and>
         instance_record ec2 (fst (instances_filter ec2) ! k) = Inr (infos ! k)"
proof -
  obtain e out where run:
    "get_ec2_list_loop ec2 (fst (instances_filter ec2)) (snd (instances_filter ec2)) [] = (e, out)"
    by (cases "get_ec2_list_loop ec2 (fst (instances_filter ec2)) (snd (instances_filter ec2)) []")
  with assms(1) have "infos = out"
    by (auto simp: get_ec2_list_def split: option.splits exn.splits)
  with loop_collects[OF run] assms(2) show ?thesis by auto
qed

lemma instance_record_Name:
  "instance_record ec2 i = Inr info \<Longrightarrow>
     \<exists>ts. tags i = Some ts \<and>
       info Name = Some (Some (case find (\<lambda>t. Key t = ''Name'') ts of
                                 Some t \<Rightarrow> Value t | None \<Rightarrow> instance_id i))"
  by (auto simp: instance_record_def get_ec2_name_def get_ec2_name_loop_find Let_def
      split: option.splits sum.splits)

lemma instance_record_Ami:
  "instance_record ec2 i = Inr info \<Longrightarrow>
     \<exists>img. Image ec2 (image_id i) = Inr img \<and>
       info Ami = Some (case description img of None \<Rightarrow> name img | Some d \<Rightarrow> Some d)"
  by (auto simp: instance_record_def Let_def split: option.splits sum.splits)

lemma loop_skips_prefix:
  assumes "map (instance_record ec2) pre = map Inr infos"
  shows "get_ec2_list_loop ec2 (pre @ rest) stop acc = get_ec2_list_loop ec2 rest stop (acc @ infos)"
  using assms
proof (induction pre arbitrary: acc infos)
  case Nil
  then show ?case by simp
next
  case (Cons x pre)
  then obtain i infos' where "infos = i # infos'" "instance_record ec2 x = Inr i"
      "map (instance_record ec2) pre = map Inr infos'"
    by (cases infos) auto
  with Cons.IH[of infos' "acc @ [i]"] show ?case by simp
qed



subsection \<open>The \<open>try\<close> block of the command\<close>

lemma try_block_upload:
  assumes "create_running_ec2_list_try e region w = (r0, w0)"
    and "UploadFile f b k \<in> set (issued_since w w0)"
    and "upload_file e f b k = Some (ClientError ce)"
  shows "r0 = Inl (ClientError ce) \<and> f = generate_file_name e \<and> f \<in> dom (files w0)
        \<and> Remove f \<notin> set (issued_since w w0)"
  using assms unfolding create_running_ec2_list_try_def Let_def
  apply (elim and_thenE)
  apply (auto simp: raising_eq returning_eq issued_since_def issue_def remove_if_exists_def
      split: option.splits if_splits
      dest!: create_not_exists_bucket_frame get_ec2_list_frame write_local_file_frame)
  done

lemma example_run:
  "create_running_ec2_list (example_env (Some (provider_error ''AccessDenied''))) ''us-east-1'' world0
     = (Inr (), upload_denied)"
  by (simp add: create_running_ec2_list_def create_running_ec2_list_try_def example_env_def
      and_then_def raising_def returning_def subscript_def except_ClientError_def
      get_bucket_name_def create_not_exists_bucket_def is_bucket_exists_def py_int_codes
      example_s3_def provider_error_def logger_def issue_def world0_def generate_file_name_def
      get_ec2_list_def example_ec2_def web_1_def untagged_def instance_record_def
      get_ec2_name_def example_Image_def write_local_file_def example_os_def file_append_def
      writerow_def csv_field_def escape_quotes_def quotechar_def lineterminator_def
      upload_denied_def example_bucket_def example_csv_def example_report_def Let_def)

lemma example_listing:
  "get_ec2_list (example_ec2 [web_1, untagged] None) world0 = (Inr [web_1_record, untagged_record], world0)"
  by (simp add: get_ec2_list_def example_ec2_def web_1_def untagged_def instance_record_def
      get_ec2_name_def example_Image_def web_1_record_def untagged_record_def)

section \<open>The bucket namer, verified\<close>

text \<open>
  C10. For every account identifier and region the name is
  \<open>'ec2-' + account + '-' + region + '-list'\<close>. The function reads no state and has no
  error branch, so equal inputs give equal names.
\<close>

theorem get_bucket_name_concat:
  "get_bucket_name account_id region = ''ec2-'' @ account_id @ ''-'' @ region @ ''-list''"
  by (simp add: get_bucket_name_def)

section \<open>The bucket resolver, verified\<close>

text \<open>
  C1. The claim is that no creation request follows a probe answered with 403. The code
  at that input: \<open>exists\<close> is set, \<open>allow_access\<close> stays \<open>False\<close>, the probe returns
  \<open>False\<close>, and \<open>create_not_exists_bucket\<close> issues one creation request after the
  warning.
\<close>

theorem access_denied_probe_creates_bucket:
  "is_bucket_exists (example_s3 (Some (provider_error ''403'')) None) example_bucket world0
     = (Inr False,
        logger WARNING ''Bucket ec2-111122223333-us-east-1-list is private. Forbidden access.''
          world0)
   \<and> create_not_exists_bucket (example_s3 (Some (provider_error ''403'')) None) example_bucket world0
       = (Inr (),
          issue (CreateBucket example_bucket)
            (logger WARNING ''Bucket ec2-111122223333-us-east-1-list is private. Forbidden access.''
               world0))
   \<and> creation_calls
         (snd (create_not_exists_bucket (example_s3 (Some (provider_error ''403'')) None)
                 example_bucket world0)) = 1"
  by (simp add: create_not_exists_bucket_def is_bucket_exists_def and_then_def raising_def
      except_ClientError_def issue_def logger_def example_s3_def provider_error_def py_int_codes
      world0_def example_bucket_def creation_calls_def)

text \<open>
  C2, as the code has it. A provider error of the probe whose code is a number other than
  403 and 404 does not leave \<open>is_bucket_exists\<close>: it is caught there, nothing is logged
  and the answer is \<open>False\<close>; the creation request is then issued. On every path to
  the creation request, that is whenever the probe answers \<open>False\<close>, after a 404 as
  well, \<open>create_not_exists_bucket\<close> catches a provider error of that request and logs
  it as a warning. No provider error ever leaves \<open>create_not_exists_bucket\<close>; any
  other exception of the request propagates.
\<close>

theorem probe_and_creation_errors_swallowed:
  "(head_bucket s3 b = Some (ClientError ce) \<and> py_int (Code ce) = Some n \<and> n \<noteq> 403 \<and> n \<noteq> 404 \<longrightarrow>
      is_bucket_exists s3 b w = (Inr False, w) \<and>
      create_not_exists_bucket s3 b w =
        (case create_bucket s3 b of
           None \<Rightarrow> (Inr (), issue (CreateBucket b) w)
         | Some (ClientError ce') \<Rightarrow>
             (Inr (), logger WARNING (Message ce') (issue (CreateBucket b) w))
         | Some e \<Rightarrow> (Inl e, issue (CreateBucket b) w))) \<and>
   (is_bucket_exists s3 b w = (Inr False, w1) \<and> create_bucket s3 b = Some (ClientError ce') \<longrightarrow>
      create_not_exists_bucket s3 b w =
        (Inr (), logger WARNING (Message ce') (issue (CreateBucket b) w1))) \<and>
   fst (create_not_exists_bucket s3 b w) \<noteq> Inl (ClientError ce')"
proof (intro conjI impI)
  assume h: "head_bucket s3 b = Some (ClientError ce) \<and> py_int (Code ce) = Some n \<and> n \<noteq> 403 \<and> n \<noteq> 404"
  then show probe: "is_bucket_exists s3 b w = (Inr False, w)"
    by (simp add: is_bucket_exists_def)
  show "create_not_exists_bucket s3 b w =
        (case create_bucket s3 b of
           None \<Rightarrow> (Inr (), issue (CreateBucket b) w)
         | Some (ClientError ce') \<Rightarrow>
             (Inr (), logger WARNING (Message ce') (issue (CreateBucket b) w))
         | Some e \<Rightarrow> (Inl e, issue (CreateBucket b) w))"
    by (simp add: probe create_not_exists_bucket_def and_then_def raising_def
        except_ClientError_def split: option.split exn.split)
next
  assume "is_bucket_exists s3 b w = (Inr False, w1) \<and> create_bucket s3 b = Some (ClientError ce')"
  then show "create_not_exists_bucket s3 b w =
        (Inr (), logger WARNING (Message ce') (issue (CreateBucket b) w1))"
    by (simp add: create_not_exists_bucket_def and_then_def raising_def except_ClientError_def)
next
  show "fst (create_not_exists_bucket s3 b w) \<noteq> Inl (ClientError ce')"
    by (auto simp: create_not_exists_bucket_def except_ClientError_def
        split: prod.splits sum.splits exn.splits)
qed

text \<open>
  The theorem twice, with a creation request answered with \<open>BucketAlreadyExists\<close>:
  after a probe answered with code 500, and after a probe answered with code 404.
\<close>

theorem probe_and_creation_errors_swallowed_witness:
  "head_bucket (example_s3 (Some (provider_error ''500'')) (Some (provider_error ''BucketAlreadyExists'')))
       example_bucket
     = Some (ClientError \<lparr>Code = ''500'', Message = ''An error occurred (500)''\<rparr>)
   \<and> py_int (Code \<lparr>Code = ''500'', Message = ''An error occurred (500)''\<rparr>) = Some 500
   \<and> (500::int) \<noteq> 403 \<and> (500::int) \<noteq> 404
   \<and> is_bucket_exists
         (example_s3 (Some (provider_error ''500'')) (Some (provider_error ''BucketAlreadyExists'')))
         example_bucket world0
       = (Inr False, world0)
   \<and> create_not_exists_bucket
         (example_s3 (Some (provider_error ''500'')) (Some (provider_error ''BucketAlreadyExists'')))
         example_bucket world0
       = (Inr (),
          logger WARNING ''An error occurred (BucketAlreadyExists)''
            (issue (CreateBucket example_bucket) world0))
   \<and> is_bucket_exists
         (example_s3 (Some (provider_error ''404'')) (Some (provider_error ''BucketAlreadyExists'')))
         example_bucket world0
       = (Inr False,
          logger INFO ''Bucket ec2-111122223333-us-east-1-list does not exist. Will be created.''
            world0)
   \<and> create_bucket
         (example_s3 (Some (provider_error ''404'')) (Some (provider_error ''BucketAlreadyExists'')))
         example_bucket
       = Some (ClientError \<lparr>Code = ''BucketAlreadyExists'',
                             Message = ''An error occurred (BucketAlreadyExists)''\<rparr>)
   \<and> create_not_exists_bucket
         (example_s3 (Some (provider_error ''404'')) (Some (provider_error ''BucketAlreadyExists'')))
         example_bucket world0
       = (Inr (),
          logger WARNING ''An error occurred (BucketAlreadyExists)''
            (issue (CreateBucket example_bucket)
               (logger INFO ''Bucket ec2-111122223333-us-east-1-list does not exist. Will be created.''
                  world0)))"
proof -
  let ?other = "example_s3 (Some (provider_error ''500'')) (Some (provider_error ''BucketAlreadyExists''))"
  let ?absent = "example_s3 (Some (provider_error ''404'')) (Some (provider_error ''BucketAlreadyExists''))"
  let ?ce = "\<lparr>Code = ''500'', Message = ''An error occurred (500)''\<rparr>"
  let ?ce' = "\<lparr>Code = ''BucketAlreadyExists'', Message = ''An error occurred (BucketAlreadyExists)''\<rparr>"
  let ?w1 = "logger INFO ''Bucket ec2-111122223333-us-east-1-list does not exist. Will be created.'' world0"
  have h1: "head_bucket ?other example_bucket = Some (ClientError ?ce)"
    by (simp add: example_s3_def provider_error_def)
  have h2: "py_int (Code ?ce) = Some 500"
    by (simp add: py_int_codes)
  have c: "create_bucket ?other example_bucket = Some (ClientError ?ce')"
    by (simp add: example_s3_def provider_error_def)
  have g1: "is_bucket_exists ?absent example_bucket world0 = (Inr False, ?w1)"
    by (simp add: is_bucket_exists_def example_s3_def provider_error_def py_int_codes
        example_bucket_def)
  have g2: "create_bucket ?absent example_bucket = Some (ClientError ?ce')"
    by (simp add: example_s3_def provider_error_def)
  from probe_and_creation_errors_swallowed[where ?s3.0 = ?other and b = example_bucket and ce = ?ce
           and n = 500 and w = world0 and ?w1.0 = world0 and ce' = ?ce']
       probe_and_creation_errors_swallowed[where ?s3.0 = ?absent and b = example_bucket and ce = ?ce
           and n = 500 and w = world0 and ?w1.0 = ?w1 and ce' = ?ce']
       h1 h2 c g1 g2
  show ?thesis by simp
qed

text \<open>
  Against C2 as stated: the probe answered with code 500, which is neither 403 nor 404,
  returns \<open>False\<close> to its caller and raises nothing.
\<close>

theorem probe_other_code_counterexample:
  "head_bucket (example_s3 (Some (provider_error ''500'')) None) example_bucket
     = Some (provider_error ''500'')
   \<and> py_int ''500'' = Some 500
   \<and> is_bucket_exists (example_s3 (Some (provider_error ''500'')) None) example_bucket world0
       = (Inr False, world0)"
  by (simp add: is_bucket_exists_def example_s3_def provider_error_def py_int_codes)

text \<open>
  C3, as the code has it. A probe answered with 404 is followed by exactly one creation
  request, for the name that was probed; a probe that succeeds is followed by none; and
  a probe answered with any other numeric code except 403 is followed by one creation
  request as well. Nothing is said here about 403.
\<close>

theorem creation_by_probe_outcome:
  "(head_bucket s3 b = None \<longrightarrow>
      trace (snd (create_not_exists_bucket s3 b w)) = trace w) \<and>
   (head_bucket s3 b = Some (ClientError ce) \<and> py_int (Code ce) = Some 404 \<longrightarrow>
      trace (snd (create_not_exists_bucket s3 b w)) = trace w @ [CreateBucket b]) \<and>
   (head_bucket s3 b = Some (ClientError ce) \<and> py_int (Code ce) = Some n \<and> n \<noteq> 403 \<longrightarrow>
      trace (snd (create_not_exists_bucket s3 b w)) = trace w @ [CreateBucket b])"
  by (auto simp: create_not_exists_bucket_def is_bucket_exists_def and_then_def raising_def
      except_ClientError_def issue_def logger_def split: option.split exn.split)

text \<open>
  The theorem at a probe that succeeds, at a probe answered with 404 and at a probe
  answered with 500.
\<close>

theorem creation_by_probe_outcome_witness:
  "head_bucket (example_s3 None None) example_bucket = None
   \<and> trace (snd (create_not_exists_bucket (example_s3 None None) example_bucket world0)) = []
   \<and> head_bucket (example_s3 (Some (provider_error ''404'')) None) example_bucket
       = Some (ClientError \<lparr>Code = ''404'', Message = ''An error occurred (404)''\<rparr>)
   \<and> py_int (Code \<lparr>Code = ''404'', Message = ''An error occurred (404)''\<rparr>) = Some 404
   \<and> trace (snd (create_not_exists_bucket (example_s3 (Some (provider_error ''404'')) None)
                   example_bucket world0))
       = [CreateBucket example_bucket]
   \<and> head_bucket (example_s3 (Some (provider_error ''500'')) None) example_bucket
       = Some (ClientError \<lparr>Code = ''500'', Message = ''An error occurred (500)''\<rparr>)
   \<and> py_int (Code \<lparr>Code = ''500'', Message = ''An error occurred (500)''\<rparr>) = Some 500
   \<and> (500::int) \<noteq> 403
   \<and> trace (snd (create_not_exists_bucket (example_s3 (Some (provider_error ''500'')) None)
                   example_bucket world0))
       = [CreateBucket example_bucket]"
proof -
  let ?nf = "\<lparr>Code = ''404'', Message = ''An error occurred (404)''\<rparr>"
  let ?ise = "\<lparr>Code = ''500'', Message = ''An error occurred (500)''\<rparr>"
  have h0: "head_bucket (example_s3 None None) example_bucket = None"
    by (simp add: example_s3_def)
  have h1: "head_bucket (example_s3 (Some (provider_error ''404'')) None) example_bucket
              = Some (ClientError ?nf)"
    by (simp add: example_s3_def provider_error_def)
  have h2: "py_int (Code ?nf) = Some 404"
    by (simp add: py_int_codes)
  have h3: "head_bucket (example_s3 (Some (provider_error ''500'')) None) example_bucket
              = Some (ClientError ?ise)"
    by (simp add: example_s3_def provider_error_def)
  have h4: "py_int (Code ?ise) = Some 500"
    by (simp add: py_int_codes)
  have t: "trace world0 = []"
    by (simp add: world0_def)
  from creation_by_probe_outcome[of "example_s3 None None" example_bucket world0 ?nf 404]
       creation_by_probe_outcome[of "example_s3 (Some (provider_error ''404'')) None"
          example_bucket world0 ?nf 404]
       creation_by_probe_outcome[of "example_s3 (Some (provider_error ''500'')) None"
          example_bucket world0 ?ise 500]
       h0 h1 h2 h3 h4 t
  show ?thesis by simp
qed

text \<open>
  Against C3 as stated: the probe answered with code 500 is not classified as not-found
  (nothing is logged), and one creation request is issued.
\<close>

theorem creation_other_code_counterexample:
  "py_int ''500'' = Some 500
   \<and> create_not_exists_bucket (example_s3 (Some (provider_error ''500'')) None) example_bucket world0
       = (Inr (), issue (CreateBucket example_bucket) world0)
   \<and> creation_calls
         (snd (create_not_exists_bucket (example_s3 (Some (provider_error ''500'')) None)
                 example_bucket world0)) = 1"
  by (simp add: create_not_exists_bucket_def is_bucket_exists_def and_then_def raising_def
      except_ClientError_def issue_def example_s3_def provider_error_def py_int_codes
      world0_def creation_calls_def)

section \<open>The instance lister, verified\<close>

text \<open>
  The display name of a record that the lister returns: the \<open>k\<close>-th record belongs
  to the \<open>k\<close>-th listed instance, that instance has a tag collection, and the display
  name is the value of the tag with key \<open>Name\<close> when there is one (the first, should
  there be several: \<open>find\<close> returns the first match and \<open>None\<close> when no tag
  matches) and the instance identifier when there is none.
\<close>

lemma listed_display_name:
  assumes "get_ec2_list ec2 w = (Inr infos, w')" and "k < length infos"
  shows "case tags (fst (instances_filter ec2) ! k) of
           None \<Rightarrow> False
         | Some ts \<Rightarrow>
             (infos ! k) Name =
               Some (Some (case find (\<lambda>t. Key t = ''Name'') ts of
                             Some t \<Rightarrow> Value t
                           | None \<Rightarrow> instance_id (fst (instances_filter ec2) ! k)))"
  using instance_record_Name[OF conjunct2[OF listed_record[OF assms]]]
  by auto

text \<open>
  The theorem on the two instances of the example: the first has a \<open>Name\<close> tag after
  another tag, the second has an empty tag list.
\<close>

lemma listed_display_name_example:
  "get_ec2_list (example_ec2 [web_1, untagged] None) world0
     = (Inr [web_1_record, untagged_record], world0)
   \<and> (0::nat) < length [web_1_record, untagged_record]
   \<and> (1::nat) < length [web_1_record, untagged_record]
   \<and> ([web_1_record, untagged_record] ! 0) Name = Some (Some ''web-1'')
   \<and> ([web_1_record, untagged_record] ! 1) Name = Some (Some ''i-0abc123'')"
proof -
  have k0: "(0::nat) < length [web_1_record, untagged_record]"
    and k1: "(1::nat) < length [web_1_record, untagged_record]"
    by simp_all
  have first: "([web_1_record, untagged_record] ! 0) Name = Some (Some ''web-1'')"
    using listed_display_name[OF example_listing k0]
    by (simp add: example_ec2_def web_1_def)
  have second: "([web_1_record, untagged_record] ! 1) Name = Some (Some ''i-0abc123'')"
    using listed_display_name[OF example_listing k1]
    by (simp add: example_ec2_def untagged_def)
  from example_listing k0 k1 first second show ?thesis
    by blast
qed

text \<open>
  C5. The claim is that an instance without a tag with key \<open>Name\<close> gets its
  identifier as display name. The code at a listing of one instance whose tag collection
  is absent, which is what the SDK hands over for an instance without tags: iterating
  \<open>None\<close> raises \<open>TypeError\<close>, the handler of the listing does not catch it, and
  no record is returned.
\<close>

theorem absent_tags_no_display_name:
  "tags tags_absent = None
   \<and> get_ec2_name tags_absent = Inl TypeError
   \<and> get_ec2_list (example_ec2 [tags_absent] None) world0 = (Inl TypeError, world0)"
  by (simp add: get_ec2_list_def example_ec2_def tags_absent_def instance_record_def
      get_ec2_name_def)

text \<open>
  C4, as the code has it. For every record the lister returns, the image lookup of its
  instance succeeded, and the image-description field is the image's name when the
  description is absent (\<open>None\<close>) and the description whenever it is present, the empty
  string included.
\<close>

theorem listed_image_description:
  assumes "get_ec2_list ec2 w = (Inr infos, w')" and "k < length infos"
  shows "case Image ec2 (image_id (fst (instances_filter ec2) ! k)) of
           Inl e \<Rightarrow> False
         | Inr img \<Rightarrow>
             (infos ! k) Ami =
               Some (case description img of None \<Rightarrow> name img | Some d \<Rightarrow> Some d)"
  using instance_record_Ami[OF conjunct2[OF listed_record[OF assms]]]
  by auto

text \<open>
  The theorem on the example: the first image has a description, the second has none
  and its name is used.
\<close>

theorem listed_image_description_witness:
  "get_ec2_list (example_ec2 [web_1, untagged] None) world0
     = (Inr [web_1_record, untagged_record], world0)
   \<and> (0::nat) < length [web_1_record, untagged_record]
   \<and> (1::nat) < length [web_1_record, untagged_record]
   \<and> ([web_1_record, untagged_record] ! 0) Ami = Some (Some ''Ubuntu 22.04'')
   \<and> ([web_1_record, untagged_record] ! 1) Ami = Some (Some ''custom-ami'')"
proof -
  have k0: "(0::nat) < length [web_1_record, untagged_record]"
    and k1: "(1::nat) < length [web_1_record, untagged_record]"
    by simp_all
  have first: "([web_1_record, untagged_record] ! 0) Ami = Some (Some ''Ubuntu 22.04'')"
    using listed_image_description[OF example_listing k0]
    by (simp add: example_ec2_def web_1_def example_Image_def)
  have second: "([web_1_record, untagged_record] ! 1) Ami = Some (Some ''custom-ami'')"
    using listed_image_description[OF example_listing k1]
    by (simp add: example_ec2_def untagged_def example_Image_def)
  from example_listing k0 k1 first second show ?thesis
    by blast
qed

text \<open>
  Against C4 as stated: an image whose description is the empty string and whose name is
  \<open>custom-ami\<close>. The record carries the empty description, not the name.
\<close>

theorem empty_description_counterexample:
  "example_Image (image_id empty_description)
     = Inr \<lparr>description = Some [], name = Some ''custom-ami''\<rparr>
   \<and> get_ec2_list (example_ec2 [empty_description] None) world0
       = (Inr [empty_description_record], world0)
   \<and> empty_description_record Ami = Some (Some [])
   \<and> empty_description_record Ami \<noteq> Some (Some ''custom-ami'')"
  by (simp add: get_ec2_list_def example_ec2_def empty_description_def instance_record_def
      get_ec2_name_def example_Image_def empty_description_record_def)

text \<open>
  C6, as the code has it. When a listed instance has no tag collection and the image
  lookup of every instance listed before it raises nothing, \<open>get_ec2_list\<close> raises
  \<open>TypeError\<close>: the handler of the listing catches provider errors only, nothing is
  logged and no record is returned.
\<close>

theorem absent_tags_raise:
  assumes "fst (instances_filter ec2) = pre @ inst # post"
    and "tags inst = None"
    and "\<forall>j\<in>set pre. \<exists>img. Image ec2 (image_id j) = Inr img"
  shows "get_ec2_list ec2 w = (Inl TypeError, w)"
proof -
  have "fst (get_ec2_list_loop ec2 (pre @ inst # post) stop acc) = Some TypeError" for stop acc
    using assms(2,3)
  proof (induction pre arbitrary: acc)
    case Nil
    then show ?case by (simp add: instance_record_def get_ec2_name_def)
  next
    case (Cons x pre)
    then show ?case
      by (auto simp: instance_record_def get_ec2_name_def Let_def split: sum.splits option.splits)
  qed
  from this[of "snd (instances_filter ec2)" "[]"] obtain out where
    "get_ec2_list_loop ec2 (pre @ inst # post) (snd (instances_filter ec2)) [] = (Some TypeError, out)"
    by (cases "get_ec2_list_loop ec2 (pre @ inst # post) (snd (instances_filter ec2)) []") auto
  then show ?thesis
    using assms(1) by (simp add: get_ec2_list_def)
qed

text \<open>The theorem on a listing whose second instance has no tag collection.\<close>

theorem absent_tags_raise_witness:
  "fst (instances_filter (example_ec2 [web_1, tags_absent, untagged] None))
     = [web_1] @ tags_absent # [untagged]
   \<and> tags tags_absent = None
   \<and> example_Image (image_id web_1)
       = Inr \<lparr>description = Some ''Ubuntu 22.04'', name = Some ''ubuntu-jammy''\<rparr>
   \<and> get_ec2_list (example_ec2 [web_1, tags_absent, untagged] None) world0 = (Inl TypeError, world0)"
proof -
  let ?ec2 = "example_ec2 [web_1, tags_absent, untagged] None"
  have h1: "fst (instances_filter ?ec2) = [web_1] @ tags_absent # [untagged]"
    by (simp add: example_ec2_def)
  have h2: "tags tags_absent = None"
    by (simp add: tags_absent_def)
  have img: "example_Image (image_id web_1)
               = Inr \<lparr>description = Some ''Ubuntu 22.04'', name = Some ''ubuntu-jammy''\<rparr>"
    by (simp add: example_Image_def web_1_def)
  then have h3: "\<forall>j\<in>set [web_1]. \<exists>img. Image ?ec2 (image_id j) = Inr img"
    by (simp add: example_ec2_def)
  from absent_tags_raise[OF h1 h2 h3, of world0] h1 h2 img show ?thesis
    by blast
qed

text \<open>
  Against C6 as stated: the listing holds an instance without a tag collection, but the
  image lookup of the instance before it raises a provider error. The handler catches
  that error and the lister returns the empty list; no exception leaves it.
\<close>

theorem absent_tags_counterexample:
  "tags_absent \<in> set (fst (instances_filter (example_ec2 [image_gone, tags_absent] None)))
   \<and> tags tags_absent = None
   \<and> get_ec2_list (example_ec2 [image_gone, tags_absent] None) world0
       = (Inr [], logger WARNING ''An error occurred (InvalidAMIID.NotFound)'' world0)"
  by (simp add: get_ec2_list_def example_ec2_def image_gone_def tags_absent_def
      instance_record_def get_ec2_name_def example_Image_def provider_error_def)

text \<open>
  C8. When the first exception of the listing is a provider error, raised either by the
  iteration after the instances \<open>pre\<close> or by the lookups for the instance that follows
  them, \<open>get_ec2_list\<close> logs it as a warning and returns the records of \<open>pre\<close>, in
  order; it raises nothing.
\<close>

theorem listing_error_caught:
  assumes "fst (instances_filter ec2) = pre @ rest"
    and "map (instance_record ec2) pre = map Inr infos"
    and "(rest = [] \<and> snd (instances_filter ec2) = Some (ClientError ce)) \<or>
         (rest \<noteq> [] \<and> instance_record ec2 (hd rest) = Inl (ClientError ce))"
  shows "get_ec2_list ec2 w = (Inr infos, logger WARNING (Message ce) w)"
proof -
  have "get_ec2_list_loop ec2 rest (snd (instances_filter ec2)) infos
          = (Some (ClientError ce), infos)"
    using assms(3) by (cases rest) auto
  then show ?thesis
    using loop_skips_prefix[OF assms(2), of rest "snd (instances_filter ec2)" "[]"] assms(1)
    by (simp add: get_ec2_list_def)
qed

text \<open>
  The theorem twice: the image lookup of the second instance raises a provider error;
  the iteration raises a provider error before yielding anything.
\<close>

theorem listing_error_caught_witness:
  "get_ec2_list (example_ec2 [web_1, image_gone, untagged] None) world0
     = (Inr [web_1_record], logger WARNING ''An error occurred (InvalidAMIID.NotFound)'' world0)
   \<and> get_ec2_list (example_ec2 [] (Some (provider_error ''RequestLimitExceeded''))) world0
     = (Inr [], logger WARNING ''An error occurred (RequestLimitExceeded)'' world0)"
proof -
  let ?ec2 = "example_ec2 [web_1, image_gone, untagged] None"
  let ?ce = "\<lparr>Code = ''InvalidAMIID.NotFound'', Message = ''An error occurred (InvalidAMIID.NotFound)''\<rparr>"
  have h1: "fst (instances_filter ?ec2) = [web_1] @ [image_gone, untagged]"
    by (simp add: example_ec2_def)
  have h2: "map (instance_record ?ec2) [web_1] = map Inr [web_1_record]"
    by (simp add: example_ec2_def web_1_def instance_record_def get_ec2_name_def
        example_Image_def web_1_record_def)
  have h3: "([image_gone, untagged] = [] \<and> snd (instances_filter ?ec2) = Some (ClientError ?ce)) \<or>
            ([image_gone, untagged] \<noteq> [] \<and>
               instance_record ?ec2 (hd [image_gone, untagged]) = Inl (ClientError ?ce))"
    by (simp add: example_ec2_def image_gone_def instance_record_def get_ec2_name_def
        example_Image_def provider_error_def)
  let ?ec2' = "example_ec2 [] (Some (provider_error ''RequestLimitExceeded''))"
  let ?ce' = "\<lparr>Code = ''RequestLimitExceeded'', Message = ''An error occurred (RequestLimitExceeded)''\<rparr>"
  have g1: "fst (instances_filter ?ec2') = [] @ []"
    by (simp add: example_ec2_def)
  have g2: "map (instance_record ?ec2') [] = map Inr []"
    by simp
  have g3: "([] = ([]::ec2_instance list) \<and> snd (instances_filter ?ec2') = Some (ClientError ?ce')) \<or>
            ([] \<noteq> ([]::ec2_instance list) \<and> instance_record ?ec2' (hd []) = Inl (ClientError ?ce'))"
    by (simp add: example_ec2_def provider_error_def)
  from listing_error_caught[OF h1 h2 h3, of world0] listing_error_caught[OF g1 g2 g3, of world0]
  show ?thesis by simp
qed

section \<open>The report writer, verified\<close>



section \<open>The command, verified\<close>

text \<open>
  C9. When a run issues the upload and the provider answers it with a provider error,
  the command returns normally, the last call on the logger is \<open>error\<close> with that
  error, the uploaded file is the local report file, it still exists, and no removal was
  issued.
\<close>

theorem upload_failure_handled:
  assumes "create_running_ec2_list e region w = (r, w')"
    and "UploadFile f b k \<in> set (issued_since w w')"
    and "upload_file e f b k = Some (ClientError ce)"
  shows "r = Inr () \<and> log w' \<noteq> [] \<and> last (log w') = (ERROR, Message ce) \<and>
         f = generate_file_name e \<and> f \<in> dom (files w') \<and>
         Remove f \<notin> set (issued_since w w')"
proof -
  obtain r0 w0 where body: "create_running_ec2_list_try e region w = (r0, w0)"
    by (cases "create_running_ec2_list_try e region w")
  have same: "trace w' = trace w0" "files w' = files w0"
    using assms(1) body
    by (auto simp: create_running_ec2_list_def except_ClientError_def logger_def
        split: sum.splits exn.splits)
  then have "UploadFile f b k \<in> set (issued_since w w0)"
    using assms(2) by (simp add: issued_since_def)
  from try_block_upload[OF body this assms(3)] same assms(1) body show ?thesis
    by (auto simp: create_running_ec2_list_def except_ClientError_def logger_def issued_since_def)
qed

text \<open>
  The theorem on the run of the example in which the upload is answered with
  \<open>AccessDenied\<close>.
\<close>

theorem upload_failure_handled_witness:
  "create_running_ec2_list (example_env (Some (provider_error ''AccessDenied''))) ''us-east-1'' world0
     = (Inr (), upload_denied)
   \<and> UploadFile example_csv example_bucket example_csv \<in> set (issued_since world0 upload_denied)
   \<and> upload_file (example_env (Some (provider_error ''AccessDenied'')))
         example_csv example_bucket example_csv
       = Some (ClientError \<lparr>Code = ''AccessDenied'', Message = ''An error occurred (AccessDenied)''\<rparr>)
   \<and> log upload_denied \<noteq> []
   \<and> last (log upload_denied) = (ERROR, ''An error occurred (AccessDenied)'')
   \<and> example_csv = generate_file_name (example_env (Some (provider_error ''AccessDenied'')))
   \<and> example_csv \<in> dom (files upload_denied)
   \<and> Remove example_csv \<notin> set (issued_since world0 upload_denied)"
proof -
  have h2: "UploadFile example_csv example_bucket example_csv
              \<in> set (issued_since world0 upload_denied)"
    by (simp add: issued_since_def world0_def upload_denied_def)
  have h3: "upload_file (example_env (Some (provider_error ''AccessDenied'')))
              example_csv example_bucket example_csv
            = Some (ClientError \<lparr>Code = ''AccessDenied'',
                                  Message = ''An error occurred (AccessDenied)''\<rparr>)"
    by (simp add: example_env_def provider_error_def)
  from upload_failure_handled[OF example_run h2 h3] example_run h2 h3 show ?thesis
    by simp
qed

end
